theory Spec2Isabelle
  imports Main
begin

section \<open>Go string primitives used by the validator\<close>

text \<open>
  A Go string is a sequence of bytes; it is modelled as a \<^typ>\<open>string\<close>, whose
  characters are bytes. Only the functions of package \<^verbatim>\<open>strings\<close> that
  \<^verbatim>\<open>extractErrorMessage\<close> and \<^verbatim>\<open>validateFiles\<close> call are
  modelled, each with the result the library documents.
\<close>

text \<open>\<^verbatim>\<open>strings.HasPrefix(s, p)\<close>.\<close>

definition HasPrefix :: "string \<Rightarrow> string \<Rightarrow> bool" where
  "HasPrefix s p = (take (length p) s = p)"

text \<open>\<^verbatim>\<open>strings.HasSuffix(s, p)\<close>.\<close>

definition HasSuffix :: "string \<Rightarrow> string \<Rightarrow> bool" where
  "HasSuffix s p = (length p \<le> length s \<and> drop (length s - length p) s = p)"

text \<open>
  \<^verbatim>\<open>strings.Index(s, substr)\<close>: the index of the first instance of
  \<^verbatim>\<open>substr\<close> in \<^verbatim>\<open>s\<close>, or \<open>-1\<close> when there is none.
\<close>

fun Index :: "string \<Rightarrow> string \<Rightarrow> int" where
  "Index [] substr = (if substr = [] then 0 else - 1)"
| "Index (c # cs) substr =
     (if HasPrefix (c # cs) substr then 0
      else (let i = Index cs substr in if i = - 1 then - 1 else i + 1))"

text \<open>\<^verbatim>\<open>strings.Contains(s, substr)\<close> is \<^verbatim>\<open>Index(s, substr) >= 0\<close>.\<close>

definition Contains :: "string \<Rightarrow> string \<Rightarrow> bool" where
  "Contains s substr = (Index s substr \<ge> 0)"

text \<open>
  \<^verbatim>\<open>strings.Split(s, "\n")\<close>: the pieces of \<^verbatim>\<open>s\<close> between the
  newlines, one more piece than there are newlines; the empty string gives one empty piece.
\<close>

fun SplitLines :: "string \<Rightarrow> string list" where
  "SplitLines [] = [[]]"
| "SplitLines (c # cs) =
     (if c = CHR 0x0A then [] # SplitLines cs
      else (case SplitLines cs of
              [] \<Rightarrow> [[c]]
            | l # ls \<Rightarrow> (c # l) # ls))"

text \<open>
  \<^verbatim>\<open>strings.TrimSpace(s)\<close> removes all leading and trailing white space, as
  Unicode defines it. The string is UTF-8, so a white-space character is one of the byte
  sequences below: the six ASCII ones, then U+0085, U+00A0, U+1680, U+2000 to U+200A,
  U+2028, U+2029, U+202F, U+205F and U+3000. A byte that starts no valid encoding decodes
  to the replacement character, which is not white space.
\<close>

definition spaceRunes :: "string list" where
  "spaceRunes =
     [[CHR 0x09], [CHR 0x0A], [CHR 0x0B], [CHR 0x0C], [CHR 0x0D], [CHR 0x20],
      [CHR 0xC2, CHR 0x85], [CHR 0xC2, CHR 0xA0],
      [CHR 0xE1, CHR 0x9A, CHR 0x80],
      [CHR 0xE2, CHR 0x80, CHR 0x80], [CHR 0xE2, CHR 0x80, CHR 0x81],
      [CHR 0xE2, CHR 0x80, CHR 0x82], [CHR 0xE2, CHR 0x80, CHR 0x83],
      [CHR 0xE2, CHR 0x80, CHR 0x84], [CHR 0xE2, CHR 0x80, CHR 0x85],
      [CHR 0xE2, CHR 0x80, CHR 0x86], [CHR 0xE2, CHR 0x80, CHR 0x87],
      [CHR 0xE2, CHR 0x80, CHR 0x88], [CHR 0xE2, CHR 0x80, CHR 0x89],
      [CHR 0xE2, CHR 0x80, CHR 0x8A],
      [CHR 0xE2, CHR 0x80, CHR 0xA8], [CHR 0xE2, CHR 0x80, CHR 0xA9],
      [CHR 0xE2, CHR 0x80, CHR 0xAF],
      [CHR 0xE2, CHR 0x81, CHR 0x9F],
      [CHR 0xE3, CHR 0x80, CHR 0x80]]"

text \<open>The width in bytes of the white-space character a string starts with, 0 if none.\<close>

definition leadingSpace :: "string \<Rightarrow> nat" where
  "leadingSpace s = (case find (HasPrefix s) spaceRunes of None \<Rightarrow> 0 | Some r \<Rightarrow> length r)"

text \<open>The width in bytes of the white-space character a string ends with, 0 if none.\<close>

definition trailingSpace :: "string \<Rightarrow> nat" where
  "trailingSpace s = (case find (HasSuffix s) spaceRunes of None \<Rightarrow> 0 | Some r \<Rightarrow> length r)"

lemma spaceRunes_nonempty: "r \<in> set spaceRunes \<Longrightarrow> 0 < length r"
  by (auto simp: spaceRunes_def)

lemma leadingSpace_le: "leadingSpace s \<le> length s"
proof (cases "find (HasPrefix s) spaceRunes")
  case None
  then show ?thesis by (simp add: leadingSpace_def)
next
  case (Some r)
  then have "HasPrefix s r" by (auto simp: find_Some_iff)
  then have "length r \<le> length s"
    by (metis HasPrefix_def length_take min.cobounded1)
  with Some show ?thesis by (simp add: leadingSpace_def)
qed

lemma leadingSpace_pos: "leadingSpace s \<noteq> 0 \<Longrightarrow> s \<noteq> []"
  using leadingSpace_le [of s] by auto

lemma trailingSpace_le: "trailingSpace s \<le> length s"
proof (cases "find (HasSuffix s) spaceRunes")
  case None
  then show ?thesis by (simp add: trailingSpace_def)
next
  case (Some r)
  then have "HasSuffix s r" by (auto simp: find_Some_iff)
  then have "length r \<le> length s" by (simp add: HasSuffix_def)
  with Some show ?thesis by (simp add: trailingSpace_def)
qed

function TrimLeft :: "string \<Rightarrow> string" where
  "TrimLeft s = (let w = leadingSpace s in if w = 0 then s else TrimLeft (drop w s))"
  by pat_completeness auto
termination
proof (relation "measure length")
  show "wf (measure length)" by simp
next
  fix s :: string and w :: nat
  assume w: "w = leadingSpace s" and nz: "w \<noteq> 0"
  then have "s \<noteq> []" using leadingSpace_pos by blast
  with nz show "(drop w s, s) \<in> measure length" by simp
qed

function TrimRight :: "string \<Rightarrow> string" where
  "TrimRight s =
     (let w = trailingSpace s in if w = 0 then s else TrimRight (take (length s - w) s))"
  by pat_completeness auto
termination
proof (relation "measure length")
  show "wf (measure length)" by simp
next
  fix s :: string and w :: nat
  assume w: "w = trailingSpace s" and nz: "w \<noteq> 0"
  then have "s \<noteq> []" using trailingSpace_le [of s] by auto
  with nz show "(take (length s - w) s, s) \<in> measure length" by simp
qed

definition TrimSpace :: "string \<Rightarrow> string" where
  "TrimSpace s = TrimRight (TrimLeft s)"

section \<open>Error-summary extraction\<close>

text \<open>
  \<^verbatim>\<open>extractErrorMessage\<close> of \<^verbatim>\<open>server/main.go\<close> (the second server
  file and the test file carry the same function). The loop over the lines returns at the
  first line that contains \<^verbatim>\<open>"ERR"\<close> and in which \<^verbatim>\<open>"ERR "\<close> is found;
  a line that contains \<^verbatim>\<open>"ERR"\<close> only without the space falls through to the next
  line. The slice \<^verbatim>\<open>line[idx+4:]\<close> is in range, since \<^verbatim>\<open>"ERR "\<close> has four
  bytes.
\<close>

fun extractLoop :: "string list \<Rightarrow> string" where
  "extractLoop [] = ''Unknown validation error''"
| "extractLoop (line # lines) =
     (if Contains line ''ERR'' then
        (let idx = Index line ''ERR '' in
         if idx \<noteq> - 1 then TrimSpace (drop (nat (idx + 4)) line)
         else extractLoop lines)
      else extractLoop lines)"

definition extractErrorMessage :: "string \<Rightarrow> string" where
  "extractErrorMessage output = extractLoop (SplitLines output)"

text \<open>
  The extraction as the specification words it: the first line in which the marker followed
  by a space occurs decides the result, which is the white-space-trimmed remainder of that
  line after the first occurrence; without such a line the result is the sentinel.
  \<open>afterMarker\<close> is the text after the first \<^verbatim>\<open>"ERR "\<close> of a line.
\<close>

fun afterMarker :: "string \<Rightarrow> string option" where
  "afterMarker [] = None"
| "afterMarker (c # cs) =
     (if HasPrefix (c # cs) ''ERR '' then Some (drop 4 (c # cs)) else afterMarker cs)"

fun firstMarked :: "string list \<Rightarrow> string option" where
  "firstMarked [] = None"
| "firstMarked (line # lines) =
     (case afterMarker line of Some rest \<Rightarrow> Some rest | None \<Rightarrow> firstMarked lines)"


section \<open>The validate endpoint\<close>

subsection \<open>Data\<close>

text \<open>
  \<^verbatim>\<open>ValidateResponse\<close>, the body of every answer of the endpoint. A field that a
  struct literal of the source does not set holds the empty string.
\<close>

record ValidateResponse =
  Success :: bool
  Message :: string
  Output :: string
  UseCase :: string
  Error :: string

text \<open>
  The keys of the JSON object that \<^verbatim>\<open>c.JSON\<close> writes for a response: the tag
  \<^verbatim>\<open>json:"error,omitempty"\<close> leaves the key out when the field is empty.
\<close>

definition json_keys :: "ValidateResponse \<Rightarrow> string list" where
  "json_keys r =
     [''success'', ''message'', ''output'', ''use_case''] @
     (if Error r = [] then [] else [''error''])"

definition TimeoutSec :: nat where
  "TimeoutSec = 30"

definition StatusOK :: nat where
  "StatusOK = 200"

definition StatusBadRequest :: nat where
  "StatusBadRequest = 400"

definition StatusInternalServerError :: nat where
  "StatusInternalServerError = 500"

text \<open>An uploaded file, and the parsed form: \<^verbatim>\<open>form.File\<close> maps a field name to its files.\<close>

record FileHeader =
  Filename :: string
  Content :: string

record Form =
  File :: "string \<rightharpoonup> FileHeader list"

text \<open>\<^verbatim>\<open>form.File[key]\<close>: a key that the map lacks gives the nil slice, of length 0.\<close>

definition files :: "Form \<Rightarrow> string \<Rightarrow> FileHeader list" where
  "files form key = (case File form key of None \<Rightarrow> [] | Some fs \<Rightarrow> fs)"

text \<open>
  Paths are kept symbolic: the directory that \<^verbatim>\<open>os.MkdirTemp\<close> returns, and
  \<^verbatim>\<open>filepath.Join\<close> of a path and a name. A command argument is a literal or a path.
\<close>

datatype path = TempDir | Join path string

datatype arg = Str string | Path path

text \<open>
  What a subprocess gives to \<^verbatim>\<open>CombinedOutput\<close>, which starts the command and
  blocks until it has exited: the combined standard output and standard error, the error
  (\<open>None\<close> for exit status 0), and the seconds the command ran.
\<close>

record CmdResult =
  combined :: string
  err :: "string option"
  seconds :: nat

text \<open>
  The outcome of every operation a handler asks of the operating system: the text of the
  error, or \<open>None\<close> when the operation succeeds; and the results of the two
  \<^verbatim>\<open>hhfab\<close> commands.
\<close>

record World =
  mkdirTemp :: "string option"
  mkdirWork :: "string option"
  mkdirInclude :: "string option"
  saveWiring :: "string option"
  saveFab :: "string option"
  removeDefaultFab :: "string option"
  initCmd :: CmdResult
  validateCmd :: CmdResult

text \<open>
  The operations a handler performed, in order. \<open>Exec name args dir n\<close> is a command run
  to completion by \<^verbatim>\<open>CombinedOutput\<close> in directory \<open>dir\<close>, on which the handler
  waited \<open>n\<close> seconds.
\<close>

datatype event =
    MkdirTemp string string
  | MkdirAll path
  | SaveUploadedFile FileHeader path
  | Remove path
  | Exec string "arg list" path nat
  | RemoveAll path

record Reply =
  status :: nat
  body :: ValidateResponse
  trace :: "event list"

definition respond :: "nat \<Rightarrow> ValidateResponse \<Rightarrow> event list \<Rightarrow> Reply" where
  "respond code r evs = \<lparr>status = code, body = r, trace = evs\<rparr>"

fun isExec :: "event \<Rightarrow> bool" where
  "isExec (Exec name args dir n) = True"
| "isExec _ = False"

fun isValidate :: "event \<Rightarrow> bool" where
  "isValidate (Exec name args dir n) = (name = ''hhfab'' \<and> args = [Str ''validate''])"
| "isValidate _ = False"

fun waited :: "event \<Rightarrow> nat" where
  "waited (Exec name args dir n) = n"
| "waited _ = 0"

text \<open>The handler ran \<^verbatim>\<open>hhfab validate\<close>; the handler ran some command.\<close>

definition ranValidate :: "event list \<Rightarrow> bool" where
  "ranValidate evs = list_ex isValidate evs"

definition ranCommand :: "event list \<Rightarrow> bool" where
  "ranCommand evs = list_ex isExec evs"

text \<open>
  The last operation before the deferred \<^verbatim>\<open>os.RemoveAll\<close> was a command: the
  response reports the outcome of that command.
\<close>

fun reportsCommand :: "event list \<Rightarrow> bool" where
  "reportsCommand evs =
     (case rev evs of
        RemoveAll d # Exec name args dir n # rest \<Rightarrow> True
      | _ \<Rightarrow> False)"

subsection \<open>The handler of server/main.go\<close>

text \<open>
  \<^verbatim>\<open>validateFiles\<close>: the request is the result of \<^verbatim>\<open>c.MultipartForm()\<close>,
  the text of its error or the form. Every \<^verbatim>\<open>return\<close> of the source is a
  \<open>respond\<close>; after the temporary directory exists, the deferred
  \<^verbatim>\<open>os.RemoveAll(tempDir)\<close> ends the trace. The index 0 is in range at both places:
  the slice of wiring files has been tested, and \<^verbatim>\<open>"uc2"\<close> is chosen only for a
  non-empty slice of fab files.
\<close>

definition validateFiles :: "World \<Rightarrow> string + Form \<Rightarrow> Reply" where
  "validateFiles w req =
     (case req of
        Inl e \<Rightarrow>
          respond StatusBadRequest
            \<lparr>Success = False, Message = ''Failed to parse multipart form'',
             Output = [], UseCase = [], Error = e\<rparr> []
      | Inr form \<Rightarrow>
          let wiringFiles = files form ''wiring'' in
          if length wiringFiles = 0 then
            respond StatusBadRequest
              \<lparr>Success = False, Message = ''Missing required wiring file'',
               Output = [], UseCase = [], Error = ''wiring file is required''\<rparr> []
          else
            let fabFiles = files form ''fab'';
                useCase = (if length fabFiles > 0 then ''uc2'' else ''uc1'');
                t1 = [MkdirTemp [] ''validator-*'']
            in
            case mkdirTemp w of
              Some e \<Rightarrow>
                respond StatusInternalServerError
                  \<lparr>Success = False, Message = ''Failed to create temporary directory'',
                   Output = [], UseCase = [], Error = e\<rparr> t1
            | None \<Rightarrow>
                let wiringFile = wiringFiles ! 0;
                    wiringPath = Join TempDir ''wiring.yaml'';
                    t2 = t1 @ [SaveUploadedFile wiringFile wiringPath]
                in
                case saveWiring w of
                  Some e \<Rightarrow>
                    respond StatusInternalServerError
                      \<lparr>Success = False, Message = ''Failed to save wiring file'',
                       Output = [], UseCase = [], Error = e\<rparr> (t2 @ [RemoveAll TempDir])
                | None \<Rightarrow>
                    (case
                       (if useCase = ''uc1'' then
                          Inr ([Str ''init'', Str ''--dev'', Str ''-w'', Path wiringPath], t2)
                        else
                          let fabFile = fabFiles ! 0;
                              fabPath = Join TempDir ''fab.yaml'';
                              t3 = t2 @ [SaveUploadedFile fabFile fabPath]
                          in
                          case saveFab w of
                            Some e \<Rightarrow>
                              Inl (respond StatusInternalServerError
                                     \<lparr>Success = False, Message = ''Failed to save fab file'',
                                      Output = [], UseCase = [], Error = e\<rparr>
                                     (t3 @ [RemoveAll TempDir]))
                          | None \<Rightarrow>
                              Inr ([Str ''init'', Str ''-c'', Path fabPath, Str ''-w'',
                                    Path wiringPath], t3))
                     of
                       Inl r \<Rightarrow> r
                     | Inr (initArgs, t4) \<Rightarrow>
                         let workDir = Join TempDir ''work'';
                             t5 = t4 @ [MkdirAll workDir]
                         in
                         case mkdirWork w of
                           Some e \<Rightarrow>
                             respond StatusInternalServerError
                               \<lparr>Success = False, Message = ''Failed to create work directory'',
                                Output = [], UseCase = [], Error = e\<rparr>
                               (t5 @ [RemoveAll TempDir])
                         | None \<Rightarrow>
                             let t6 = t5 @ [Exec ''hhfab'' initArgs workDir (seconds (initCmd w))];
                                 initOutput = combined (initCmd w)
                             in
                             case err (initCmd w) of
                               Some e \<Rightarrow>
                                 respond StatusBadRequest
                                   \<lparr>Success = False, Message = ''Failed to initialize hhfab'',
                                    Output = initOutput, UseCase = useCase,
                                    Error = ''hhfab init failed: '' @ e\<rparr>
                                   (t6 @ [RemoveAll TempDir])
                             | None \<Rightarrow>
                                 let t7 = t6 @ [Exec ''hhfab'' [Str ''validate''] workDir
                                                  (seconds (validateCmd w))];
                                     outputStr = combined (validateCmd w)
                                 in
                                 case err (validateCmd w) of
                                   Some e \<Rightarrow>
                                     if Contains outputStr ''ERR'' then
                                       respond StatusBadRequest
                                         \<lparr>Success = False, Message = ''Validation failed'',
                                          Output = outputStr, UseCase = useCase,
                                          Error = extractErrorMessage outputStr\<rparr>
                                         (t7 @ [RemoveAll TempDir])
                                     else
                                       respond StatusInternalServerError
                                         \<lparr>Success = False, Message = ''Failed to run validation'',
                                          Output = outputStr, UseCase = useCase, Error = e\<rparr>
                                         (t7 @ [RemoveAll TempDir])
                                 | None \<Rightarrow>
                                     respond StatusOK
                                       \<lparr>Success = True,
                                        Message = ''Fabricator config and wiring are valid'',
                                        Output = outputStr, UseCase = useCase, Error = []\<rparr>
                                       (t7 @ [RemoveAll TempDir])))"

subsection \<open>The handler of the second server file\<close>

text \<open>
  The repository holds a second \<^verbatim>\<open>validateFiles\<close>, in a server file of its own.
  It runs \<^verbatim>\<open>hhfab init --dev\<close> in the empty work directory first, stages the
  uploads afterwards (the wiring file under \<^verbatim>\<open>include\<close>, the fab file in place
  of the generated one), and answers a failed validation with the output as its message and
  without an error text.
\<close>

definition validateFiles_alt :: "World \<Rightarrow> string + Form \<Rightarrow> Reply" where
  "validateFiles_alt w req =
     (case req of
        Inl e \<Rightarrow>
          respond StatusBadRequest
            \<lparr>Success = False, Message = ''Failed to parse multipart form'',
             Output = [], UseCase = [], Error = e\<rparr> []
      | Inr form \<Rightarrow>
          let wiringFiles = files form ''wiring'' in
          if length wiringFiles = 0 then
            respond StatusBadRequest
              \<lparr>Success = False, Message = ''Missing required wiring file'',
               Output = [], UseCase = [], Error = ''wiring file is required''\<rparr> []
          else
            let fabFiles = files form ''fab'';
                useCase = (if length fabFiles > 0 then ''uc2'' else ''uc1'');
                t1 = [MkdirTemp [] ''validator-*'']
            in
            case mkdirTemp w of
              Some e \<Rightarrow>
                respond StatusInternalServerError
                  \<lparr>Success = False, Message = ''Failed to create temporary directory'',
                   Output = [], UseCase = [], Error = e\<rparr> t1
            | None \<Rightarrow>
                let workDir = Join TempDir ''work'';
                    t2 = t1 @ [MkdirAll workDir]
                in
                case mkdirWork w of
                  Some e \<Rightarrow>
                    respond StatusInternalServerError
                      \<lparr>Success = False, Message = ''Failed to create work directory'',
                       Output = [], UseCase = [], Error = e\<rparr> (t2 @ [RemoveAll TempDir])
                | None \<Rightarrow>
                    let t3 = t2 @ [Exec ''hhfab'' [Str ''init'', Str ''--dev''] workDir
                                     (seconds (initCmd w))];
                        initOutput = combined (initCmd w)
                    in
                    case err (initCmd w) of
                      Some e \<Rightarrow>
                        respond StatusInternalServerError
                          \<lparr>Success = False, Message = ''Failed to initialize hhfab'',
                           Output = initOutput, UseCase = useCase,
                           Error = ''hhfab init failed: '' @ e\<rparr> (t3 @ [RemoveAll TempDir])
                    | None \<Rightarrow>
                        let includeDir = Join workDir ''include'';
                            t4 = t3 @ [MkdirAll includeDir]
                        in
                        case mkdirInclude w of
                          Some e \<Rightarrow>
                            respond StatusInternalServerError
                              \<lparr>Success = False,
                               Message = ''Failed to create include directory'',
                               Output = [], UseCase = [], Error = e\<rparr>
                              (t4 @ [RemoveAll TempDir])
                        | None \<Rightarrow>
                            let wiringFile = wiringFiles ! 0;
                                wiringPath = Join includeDir ''wiring.yaml'';
                                t5 = t4 @ [SaveUploadedFile wiringFile wiringPath]
                            in
                            case saveWiring w of
                              Some e \<Rightarrow>
                                respond StatusInternalServerError
                                  \<lparr>Success = False, Message = ''Failed to save wiring file'',
                                   Output = [], UseCase = [], Error = e\<rparr>
                                  (t5 @ [RemoveAll TempDir])
                            | None \<Rightarrow>
                                (case
                                   (if useCase = ''uc2'' then
                                      let defaultFabPath = Join workDir ''fab.yaml'';
                                          t6 = t5 @ [Remove defaultFabPath]
                                      in
                                      case removeDefaultFab w of
                                        Some e \<Rightarrow>
                                          Inl (respond StatusInternalServerError
                                                 \<lparr>Success = False,
                                                  Message = ''Failed to remove default fab.yaml'',
                                                  Output = [], UseCase = [], Error = e\<rparr>
                                                 (t6 @ [RemoveAll TempDir]))
                                      | None \<Rightarrow>
                                          let fabFile = fabFiles ! 0;
                                              fabPath = Join workDir ''fab.yaml'';
                                              t7 = t6 @ [SaveUploadedFile fabFile fabPath]
                                          in
                                          (case saveFab w of
                                             Some e \<Rightarrow>
                                               Inl (respond StatusInternalServerError
                                                      \<lparr>Success = False,
                                                       Message = ''Failed to save fab file'',
                                                       Output = [], UseCase = [], Error = e\<rparr>
                                                      (t7 @ [RemoveAll TempDir]))
                                           | None \<Rightarrow> Inr t7)
                                    else Inr t5)
                                 of
                                   Inl r \<Rightarrow> r
                                 | Inr t8 \<Rightarrow>
                                     let t9 = t8 @ [Exec ''hhfab'' [Str ''validate''] workDir
                                                      (seconds (validateCmd w))];
                                         outputStr = combined (validateCmd w)
                                     in
                                     case err (validateCmd w) of
                                       Some e \<Rightarrow>
                                         respond StatusBadRequest
                                           \<lparr>Success = False, Message = outputStr,
                                            Output = outputStr, UseCase = useCase, Error = []\<rparr>
                                           (t9 @ [RemoveAll TempDir])
                                     | None \<Rightarrow>
                                         respond StatusOK
                                           \<lparr>Success = True, Message = outputStr,
                                            Output = outputStr, UseCase = useCase, Error = []\<rparr>
                                           (t9 @ [RemoveAll TempDir])))"

subsection \<open>Requests and worlds used as examples\<close>

definition wiringUpload :: FileHeader where
  "wiringUpload = \<lparr>Filename = ''wiring.yaml'', Content = ''kind: Switch''\<rparr>"

definition fabUpload :: FileHeader where
  "fabUpload = \<lparr>Filename = ''fab.yaml'', Content = ''kind: Fabricator''\<rparr>"

definition emptyForm :: Form where
  "emptyForm = \<lparr>File = Map.empty\<rparr>"

definition wiringOnly :: Form where
  "wiringOnly = \<lparr>File = [''wiring'' \<mapsto> [wiringUpload]]\<rparr>"

definition bothFiles :: Form where
  "bothFiles = \<lparr>File = [''wiring'' \<mapsto> [wiringUpload], ''fab'' \<mapsto> [fabUpload]]\<rparr>"

text \<open>A world in which every operation succeeds and both commands exit with status 0.\<close>

definition calmWorld :: World where
  "calmWorld =
     \<lparr>mkdirTemp = None, mkdirWork = None, mkdirInclude = None, saveWiring = None,
      saveFab = None, removeDefaultFab = None,
      initCmd = \<lparr>combined = [], err = None, seconds = 1\<rparr>,
      validateCmd =
        \<lparr>combined = ''06:37:39 INF Fabricator config and wiring are valid'',
         err = None, seconds = 1\<rparr>\<rparr>"

text \<open>Validation rejects the files: exit status 1 and a marker line.\<close>

definition rejectingWorld :: World where
  "rejectingWorld =
     calmWorld\<lparr>validateCmd :=
       \<lparr>combined = ''06:38:17 ERR validating: some error occurred'',
        err = Some ''exit status 1'', seconds = 1\<rparr>\<rparr>"

text \<open>The validation command dies without a marker in its output.\<close>

definition crashingWorld :: World where
  "crashingWorld =
     calmWorld\<lparr>validateCmd :=
       \<lparr>combined = ''panic: runtime error'', err = Some ''exit status 2'',
        seconds = 1\<rparr>\<rparr>"

text \<open>The validation command runs for 31 seconds before it exits with status 0.\<close>

definition slowWorld :: World where
  "slowWorld =
     calmWorld\<lparr>validateCmd :=
       \<lparr>combined = ''06:37:39 INF Fabricator config and wiring are valid'',
        err = None, seconds = 31\<rparr>\<rparr>"

text \<open>No temporary directory can be made; an uploaded file cannot be written.\<close>

definition noTempWorld :: World where
  "noTempWorld = calmWorld\<lparr>mkdirTemp := Some ''mkdir /tmp/validator-1: no space left on device''\<rparr>"

definition noWiringWriteWorld :: World where
  "noWiringWriteWorld = calmWorld\<lparr>saveWiring := Some ''write wiring.yaml: no space left on device''\<rparr>"

definition noFabWriteWorld :: World where
  "noFabWriteWorld = calmWorld\<lparr>saveFab := Some ''write fab.yaml: no space left on device''\<rparr>"

text \<open>
  Every error of the world and of the request has a text; the hypothesis under which a
  failure response of \<^verbatim>\<open>server/main.go\<close> that copies such a text has an error field.
\<close>

definition errorTextsNonEmpty :: "World \<Rightarrow> string + Form \<Rightarrow> bool" where
  "errorTextsNonEmpty w req =
     ((case req of Inl e \<Rightarrow> e \<noteq> [] | Inr form \<Rightarrow> True) \<and> mkdirTemp w \<noteq> Some [] \<and> saveWiring w \<noteq> Some [] \<and>
      saveFab w \<noteq> Some [] \<and> mkdirWork w \<noteq> Some [] \<and> err (validateCmd w) \<noteq> Some [])"

section \<open>Properties of the string primitives\<close>

declare TrimLeft.simps [simp del] TrimRight.simps [simp del]

lemma Index_ge: "- 1 \<le> Index s sub"
  by (induction s) (auto simp: Let_def)

lemma Index_bound: "Index s sub \<noteq> - 1 \<Longrightarrow> nat (Index s sub) + length sub \<le> length s"
proof (induction s)
  case Nil
  then show ?case by (simp split: if_splits)
next
  case (Cons c cs)
  show ?case
  proof (cases "HasPrefix (c # cs) sub")
    case True
    then have "length sub \<le> length (c # cs)"
      by (metis HasPrefix_def length_take min.cobounded1)
    with True show ?thesis by simp
  next
    case False
    with Cons.prems have ne: "Index cs sub \<noteq> - 1" by (auto simp: Let_def split: if_splits)
    have ge: "0 \<le> Index cs sub" using Index_ge [of cs sub] ne by linarith
    from Cons.IH [OF ne] False ne ge show ?thesis by (simp add: Let_def nat_add_distrib)
  qed
qed

lemma Index_prefix: "Index s (p @ q) \<noteq> - 1 \<Longrightarrow> Index s p \<noteq> - 1"
proof (induction s)
  case Nil
  then show ?case by (simp split: if_splits)
next
  case (Cons c cs)
  show ?case
  proof (cases "HasPrefix (c # cs) (p @ q)")
    case True
    then have "HasPrefix (c # cs) p"
      unfolding HasPrefix_def
      by (metis append_eq_conv_conj append_take_drop_id length_append take_add take_all_iff append.assoc)
    then show ?thesis by simp
  next
    case False
    with Cons.prems have "Index cs (p @ q) \<noteq> - 1" by (auto simp: Let_def split: if_splits)
    from Cons.IH [OF this] have ne: "Index cs p \<noteq> - 1" .
    have "0 \<le> Index cs p" using Index_ge [of cs p] ne by linarith
    with ne show ?thesis by (auto simp: Let_def)
  qed
qed

lemma afterMarker_Index:
  "afterMarker s = (if Index s ''ERR '' = - 1 then None else Some (drop (nat (Index s ''ERR '' + 4)) s))"
proof (induction s)
  case Nil
  show ?case by simp
next
  case (Cons c cs)
  have ge: "- 1 \<le> Index cs ''ERR ''" by (rule Index_ge)
  show ?case
  proof (cases "HasPrefix (c # cs) ''ERR ''")
    case True
    then show ?thesis by simp
  next
    case np: False
    show ?thesis
    proof (cases "Index cs ''ERR '' = - 1")
      case True
      with np Cons.IH show ?thesis by (simp add: Let_def)
    next
      case ne: False
      with ge have pos: "0 \<le> Index cs ''ERR ''" by linarith
      then have "nat (Index cs ''ERR '' + 1 + 4) = Suc (nat (Index cs ''ERR '' + 4))"
        by (simp add: nat_add_distrib)
      moreover have "Index cs ''ERR '' + 1 \<noteq> - 1" using pos by linarith
      ultimately show ?thesis using np ne Cons.IH by (simp add: Let_def)
    qed
  qed
qed

lemma Contains_marker: "Index line ''ERR '' \<noteq> - 1 \<Longrightarrow> Contains line ''ERR''"
proof -
  assume a: "Index line ''ERR '' \<noteq> - 1"
  have "Index line (''ERR'' @ '' '') \<noteq> - 1" using a by simp
  then have "Index line ''ERR'' \<noteq> - 1" by (rule Index_prefix)
  with Index_ge [of line "''ERR''"] show ?thesis unfolding Contains_def by linarith
qed

lemma extractLoop_spec:
  "extractLoop lines =
     (case firstMarked lines of None \<Rightarrow> ''Unknown validation error'' | Some rest \<Rightarrow> TrimSpace rest)"
proof (induction lines)
  case Nil
  show ?case by simp
next
  case (Cons line lines)
  show ?case
  proof (cases "Index line ''ERR '' = - 1")
    case True
    with Cons.IH show ?thesis by (simp add: afterMarker_Index Let_def)
  next
    case False
    then have "Contains line ''ERR''" by (rule Contains_marker)
    with False show ?thesis by (simp add: afterMarker_Index Let_def)
  qed
qed

lemma TrimLeft_length: "length (TrimLeft s) \<le> length s"
proof (induction s rule: TrimLeft.induct)
  case (1 s)
  show ?case
  proof (cases "leadingSpace s = 0")
    case True
    then show ?thesis by (simp add: TrimLeft.simps [of s])
  next
    case False
    from "1" [OF refl False] have "length (TrimLeft (drop (leadingSpace s) s)) \<le> length s" by simp
    with False show ?thesis by (simp add: TrimLeft.simps [of s] Let_def)
  qed
qed

lemma TrimRight_length: "length (TrimRight s) \<le> length s"
proof (induction s rule: TrimRight.induct)
  case (1 s)
  show ?case
  proof (cases "trailingSpace s = 0")
    case True
    then show ?thesis by (simp add: TrimRight.simps [of s])
  next
    case False
    from "1" [OF refl False]
    have "length (TrimRight (take (length s - trailingSpace s) s)) \<le> length s" by simp
    with False show ?thesis by (simp add: TrimRight.simps [of s] Let_def)
  qed
qed

lemma TrimSpace_length: "length (TrimSpace s) \<le> length s"
  unfolding TrimSpace_def
  using TrimRight_length [of "TrimLeft s"] TrimLeft_length [of s] by linarith

lemma afterMarker_length: "afterMarker s = Some r \<Longrightarrow> length r + 4 \<le> length s"
proof (induction s)
  case Nil
  then show ?case by simp
next
  case (Cons c cs)
  show ?case
  proof (cases "HasPrefix (c # cs) ''ERR ''")
    case True
    then have "length ''ERR '' \<le> length (c # cs)"
      by (metis HasPrefix_def length_take min.cobounded1)
    with True Cons.prems show ?thesis by auto
  next
    case False
    with Cons show ?thesis by auto
  qed
qed

lemma SplitLines_nonempty: "SplitLines s \<noteq> []"
  by (induction s) (auto split: list.splits)

lemma SplitLines_length: "l \<in> set (SplitLines s) \<Longrightarrow> length l \<le> length s"
proof (induction s arbitrary: l)
  case Nil
  then show ?case by simp
next
  case (Cons c cs)
  show ?case
  proof (cases "c = CHR 0x0A")
    case True
    with Cons show ?thesis by fastforce
  next
    case False
    obtain h t where ht: "SplitLines cs = h # t"
      using SplitLines_nonempty [of cs] by (cases "SplitLines cs") auto
    with False Cons.prems have "l = c # h \<or> l \<in> set t" by simp
    then show ?thesis
    proof
      assume "l = c # h"
      moreover have "length h \<le> length cs" using Cons.IH [of h] ht by simp
      ultimately show ?thesis by simp
    next
      assume "l \<in> set t"
      then have "length l \<le> length cs" using Cons.IH [of l] ht by simp
      then show ?thesis by simp
    qed
  qed
qed

lemma firstMarked_length:
  "firstMarked ls = Some r \<Longrightarrow> \<exists>l\<in>set ls. length r + 4 \<le> length l"
proof (induction ls)
  case Nil
  then show ?case by simp
next
  case (Cons l ls)
  then show ?case by (cases "afterMarker l") (auto dest: afterMarker_length)
qed

lemma extract_shrinks:
  "extractErrorMessage t = ''Unknown validation error'' \<or>
   length (extractErrorMessage t) < length t"
proof (cases "firstMarked (SplitLines t)")
  case None
  then show ?thesis by (simp add: extractErrorMessage_def extractLoop_spec)
next
  case (Some r)
  then obtain l where l: "l \<in> set (SplitLines t)" "length r + 4 \<le> length l"
    using firstMarked_length by blast
  have "length (TrimSpace r) \<le> length r" by (rule TrimSpace_length)
  moreover have "length l \<le> length t" using l(1) by (rule SplitLines_length)
  moreover have "extractErrorMessage t = TrimSpace r"
    using Some by (simp add: extractErrorMessage_def extractLoop_spec)
  ultimately show ?thesis using l(2) by simp
qed

lemma extractLoop_no_marker:
  "\<forall>line\<in>set lines. \<not> Contains line ''ERR'' \<Longrightarrow> extractLoop lines = ''Unknown validation error''"
  by (induction lines) simp_all

lemma sentinel_fixed:
  "extractErrorMessage ''Unknown validation error'' = ''Unknown validation error''"
  by code_simp

section \<open>Properties of the error-summary extraction\<close>

text \<open>
  C5, as the code has it. When no line of the output contains the marker \<^verbatim>\<open>ERR\<close>,
  \<open>extractErrorMessage\<close> returns its fixed sentinel. The sentinel of the code is
  \<^verbatim>\<open>"Unknown validation error"\<close>.
\<close>

theorem extract_no_marker_sentinel:
  assumes "\<forall>line\<in>set (SplitLines output). \<not> Contains line ''ERR''"
  shows "extractErrorMessage output = ''Unknown validation error''"
  using assms by (simp add: extractErrorMessage_def extractLoop_no_marker)

theorem extract_no_marker_sentinel_witness:
  "SplitLines ''06:37:39 INF Fabricator config and wiring are valid'' =
     [''06:37:39 INF Fabricator config and wiring are valid''] \<and>
   \<not> Contains ''06:37:39 INF Fabricator config and wiring are valid'' ''ERR'' \<and>
   extractErrorMessage ''06:37:39 INF Fabricator config and wiring are valid'' =
     ''Unknown validation error''"
proof -
  have lines: "SplitLines ''06:37:39 INF Fabricator config and wiring are valid'' =
     [''06:37:39 INF Fabricator config and wiring are valid'']"
    by code_simp
  have clean: "\<not> Contains ''06:37:39 INF Fabricator config and wiring are valid'' ''ERR''"
    by code_simp
  have hyp: "\<forall>line\<in>set (SplitLines ''06:37:39 INF Fabricator config and wiring are valid'').
               \<not> Contains line ''ERR''"
    using lines clean by simp
  from extract_no_marker_sentinel [OF hyp] lines clean show ?thesis by simp
qed

text \<open>
  C5 as the claim words it fails: on the output of a successful run, which has no marker,
  the result is not the string \<^verbatim>\<open>"unknown error"\<close>.
\<close>

theorem extract_sentinel_counterexample:
  "\<not> Contains ''06:37:39 INF Fabricator config and wiring are valid'' ''ERR'' \<and>
   extractErrorMessage ''06:37:39 INF Fabricator config and wiring are valid'' \<noteq>
     ''unknown error''"
proof -
  have "\<not> Contains ''06:37:39 INF Fabricator config and wiring are valid'' ''ERR''"
    by code_simp
  moreover
  have "extractErrorMessage ''06:37:39 INF Fabricator config and wiring are valid'' =
          ''Unknown validation error''"
    by code_simp
  ultimately show ?thesis by simp
qed

text \<open>
  C6, as the code has it. The extraction is a function of the output text alone. Applying
  it to its own result gives that result back exactly when the result is the sentinel:
  any other summary is shorter than the text it was taken from, so a second extraction
  either finds no marker or returns a shorter text.
\<close>

theorem extract_twice_iff_sentinel:
  "extractErrorMessage (extractErrorMessage s) = extractErrorMessage s
   \<longleftrightarrow> extractErrorMessage s = ''Unknown validation error''"
proof
  assume fixed: "extractErrorMessage (extractErrorMessage s) = extractErrorMessage s"
  from extract_shrinks [of "extractErrorMessage s"]
  show "extractErrorMessage s = ''Unknown validation error''"
  proof
    assume "extractErrorMessage (extractErrorMessage s) = ''Unknown validation error''"
    with fixed show ?thesis by simp
  next
    assume "length (extractErrorMessage (extractErrorMessage s)) < length (extractErrorMessage s)"
    with fixed show ?thesis by simp
  qed
next
  assume "extractErrorMessage s = ''Unknown validation error''"
  then show "extractErrorMessage (extractErrorMessage s) = extractErrorMessage s"
    using sentinel_fixed by simp
qed

text \<open>
  C6 as the claim words it fails on the scenario of the specification: the summary of
  \<^verbatim>\<open>"06:38:17 ERR validating: some error occurred"\<close> has no marker, and extracting
  from it gives the sentinel, not the summary.
\<close>

theorem extract_idempotent_counterexample:
  "extractErrorMessage (extractErrorMessage ''06:38:17 ERR validating: some error occurred'')
     \<noteq> extractErrorMessage ''06:38:17 ERR validating: some error occurred''"
proof -
  have once: "extractErrorMessage ''06:38:17 ERR validating: some error occurred'' =
                ''validating: some error occurred''"
    by code_simp
  have twice: "extractErrorMessage ''validating: some error occurred'' =
                 ''Unknown validation error''"
    by code_simp
  show ?thesis unfolding once twice by simp
qed


section \<open>Case analysis of the handlers\<close>



lemma main_failure:
  "ranValidate (trace (validateFiles w req)) \<Longrightarrow> err (validateCmd w) \<noteq> None \<Longrightarrow>
     (Contains (combined (validateCmd w)) ''ERR'' \<longrightarrow>
        status (validateFiles w req) = StatusBadRequest \<and>
        \<not> Success (body (validateFiles w req)) \<and>
        Message (body (validateFiles w req)) = ''Validation failed'' \<and>
        Error (body (validateFiles w req)) = extractErrorMessage (combined (validateCmd w))) \<and>
     (\<not> Contains (combined (validateCmd w)) ''ERR'' \<longrightarrow>
        status (validateFiles w req) = StatusInternalServerError \<and>
        \<not> Success (body (validateFiles w req)) \<and>
        Message (body (validateFiles w req)) = ''Failed to run validation'' \<and>
        Some (Error (body (validateFiles w req))) = err (validateCmd w))"
  by (auto simp add: validateFiles_def respond_def Let_def ranValidate_def
      split: sum.splits option.splits if_splits)

lemma alt_failure:
  "ranValidate (trace (validateFiles_alt w req)) \<Longrightarrow> err (validateCmd w) \<noteq> None \<Longrightarrow>
     status (validateFiles_alt w req) = StatusBadRequest \<and>
     \<not> Success (body (validateFiles_alt w req)) \<and>
     Message (body (validateFiles_alt w req)) = combined (validateCmd w) \<and>
     Error (body (validateFiles_alt w req)) = []"
  by (auto simp add: validateFiles_alt_def respond_def Let_def ranValidate_def
      split: sum.splits option.splits if_splits)

lemma missing_wiring:
  assumes "files form ''wiring'' = []"
  shows "validateFiles w (Inr form) =
           respond StatusBadRequest
             \<lparr>Success = False, Message = ''Missing required wiring file'',
              Output = [], UseCase = [], Error = ''wiring file is required''\<rparr> []"
    and "validateFiles_alt w (Inr form) =
           respond StatusBadRequest
             \<lparr>Success = False, Message = ''Missing required wiring file'',
              Output = [], UseCase = [], Error = ''wiring file is required''\<rparr> []"
  using assms by (simp_all add: validateFiles_def validateFiles_alt_def)

lemma main_tag:
  assumes "files form ''wiring'' \<noteq> []"
  shows "UseCase (body (validateFiles w (Inr form))) =
           (if reportsCommand (trace (validateFiles w (Inr form)))
            then (if files form ''fab'' = [] then ''uc1'' else ''uc2'') else [])"
  using assms
  by (auto simp add: validateFiles_def respond_def Let_def
      split: sum.splits option.splits if_splits)

lemma alt_tag:
  assumes "files form ''wiring'' \<noteq> []"
  shows "UseCase (body (validateFiles_alt w (Inr form))) =
           (if reportsCommand (trace (validateFiles_alt w (Inr form)))
            then (if files form ''fab'' = [] then ''uc1'' else ''uc2'') else [])"
  using assms
  by (auto simp add: validateFiles_alt_def respond_def Let_def
      split: sum.splits option.splits if_splits)

lemma main_staging:
  assumes "files form ''wiring'' \<noteq> []"
    and "mkdirTemp w \<noteq> None \<or> saveWiring w \<noteq> None \<or> (files form ''fab'' \<noteq> [] \<and> saveFab w \<noteq> None)"
  shows "status (validateFiles w (Inr form)) = StatusInternalServerError \<and>
         \<not> Success (body (validateFiles w (Inr form))) \<and>
         \<not> ranCommand (trace (validateFiles w (Inr form)))"
  using assms
  by (auto simp add: validateFiles_def respond_def Let_def ranCommand_def
      split: sum.splits option.splits if_splits)

lemma alt_staging:
  assumes "files form ''wiring'' \<noteq> []"
    and "mkdirTemp w \<noteq> None \<or> saveWiring w \<noteq> None \<or> (files form ''fab'' \<noteq> [] \<and> saveFab w \<noteq> None)"
  shows "status (validateFiles_alt w (Inr form)) = StatusInternalServerError \<and>
         \<not> Success (body (validateFiles_alt w (Inr form))) \<and>
         \<not> ranValidate (trace (validateFiles_alt w (Inr form))) \<and>
         (mkdirTemp w \<noteq> None \<longrightarrow> \<not> ranCommand (trace (validateFiles_alt w (Inr form))))"
  using assms
  by (auto simp add: validateFiles_alt_def respond_def Let_def ranCommand_def ranValidate_def
      split: sum.splits option.splits if_splits)

lemma main_success_no_error:
  "Success (body (validateFiles w req)) \<Longrightarrow> Error (body (validateFiles w req)) = []"
  by (auto simp add: validateFiles_def respond_def Let_def
      split: sum.splits option.splits if_splits)

lemma alt_success_no_error:
  "Success (body (validateFiles_alt w req)) \<Longrightarrow> Error (body (validateFiles_alt w req)) = []"
  by (auto simp add: validateFiles_alt_def respond_def Let_def
      split: sum.splits option.splits if_splits)

lemma main_failure_has_error:
  "errorTextsNonEmpty w req \<Longrightarrow> extractErrorMessage (combined (validateCmd w)) \<noteq> [] \<Longrightarrow>
   \<not> Success (body (validateFiles w req)) \<Longrightarrow> Error (body (validateFiles w req)) \<noteq> []"
  by (auto simp add: validateFiles_def respond_def Let_def errorTextsNonEmpty_def
      split: sum.splits option.splits if_splits)

lemma error_key_iff: "''error'' \<in> set (json_keys r) \<longleftrightarrow> Error r \<noteq> []"
  by (simp add: json_keys_def)

section \<open>Properties of the validate endpoint\<close>



text \<open>
  C2, as the code has it. When \<^verbatim>\<open>hhfab validate\<close> has run and returned an error,
  the handler of \<^verbatim>\<open>server/main.go\<close> answers 400 with the message
  \<^verbatim>\<open>"Validation failed"\<close> and the extracted summary as error text if the output
  contains \<^verbatim>\<open>ERR\<close>, and 500 with \<^verbatim>\<open>"Failed to run validation"\<close> and the text
  of the error otherwise. The second handler does not look for the marker: it answers 400
  with the output as message and no error text in either case.
\<close>

theorem validate_failure_response:
  "(ranValidate (trace (validateFiles w req)) \<and> err (validateCmd w) \<noteq> None \<longrightarrow>
      (Contains (combined (validateCmd w)) ''ERR'' \<longrightarrow>
         status (validateFiles w req) = StatusBadRequest \<and>
         \<not> Success (body (validateFiles w req)) \<and>
         Message (body (validateFiles w req)) = ''Validation failed'' \<and>
         Error (body (validateFiles w req)) = extractErrorMessage (combined (validateCmd w))) \<and>
      (\<not> Contains (combined (validateCmd w)) ''ERR'' \<longrightarrow>
         status (validateFiles w req) = StatusInternalServerError \<and>
         \<not> Success (body (validateFiles w req)) \<and>
         Message (body (validateFiles w req)) = ''Failed to run validation'' \<and>
         Some (Error (body (validateFiles w req))) = err (validateCmd w))) \<and>
   (ranValidate (trace (validateFiles_alt w req)) \<and> err (validateCmd w) \<noteq> None \<longrightarrow>
      status (validateFiles_alt w req) = StatusBadRequest \<and>
      \<not> Success (body (validateFiles_alt w req)) \<and>
      Message (body (validateFiles_alt w req)) = combined (validateCmd w) \<and>
      Error (body (validateFiles_alt w req)) = [])"
  using main_failure [of w req] alt_failure [of w req] by blast

theorem validate_failure_response_witness:
  "status (validateFiles rejectingWorld (Inr wiringOnly)) = StatusBadRequest \<and>
   Error (body (validateFiles rejectingWorld (Inr wiringOnly))) =
     ''validating: some error occurred'' \<and>
   status (validateFiles crashingWorld (Inr wiringOnly)) = StatusInternalServerError \<and>
   Error (body (validateFiles crashingWorld (Inr wiringOnly))) = ''exit status 2'' \<and>
   status (validateFiles_alt rejectingWorld (Inr wiringOnly)) = StatusBadRequest \<and>
   Message (body (validateFiles_alt rejectingWorld (Inr wiringOnly))) =
     ''06:38:17 ERR validating: some error occurred''"
proof -
  have r1: "ranValidate (trace (validateFiles rejectingWorld (Inr wiringOnly)))"
    by code_simp
  have r2: "ranValidate (trace (validateFiles crashingWorld (Inr wiringOnly)))"
    by code_simp
  have r3: "ranValidate (trace (validateFiles_alt rejectingWorld (Inr wiringOnly)))"
    by code_simp
  have e1: "err (validateCmd rejectingWorld) \<noteq> None"
    by code_simp
  have e2: "err (validateCmd crashingWorld) = Some ''exit status 2''"
    by code_simp
  have c1: "Contains (combined (validateCmd rejectingWorld)) ''ERR''"
    by code_simp
  have c2: "\<not> Contains (combined (validateCmd crashingWorld)) ''ERR''"
    by code_simp
  have x1: "extractErrorMessage (combined (validateCmd rejectingWorld)) =
              ''validating: some error occurred''"
    by code_simp
  have o1: "combined (validateCmd rejectingWorld) =
              ''06:38:17 ERR validating: some error occurred''"
    by code_simp
  from validate_failure_response [of rejectingWorld "Inr wiringOnly"] r1 e1 c1
  have "status (validateFiles rejectingWorld (Inr wiringOnly)) = StatusBadRequest \<and>
        Error (body (validateFiles rejectingWorld (Inr wiringOnly))) =
          extractErrorMessage (combined (validateCmd rejectingWorld))"
    by blast
  moreover
  from validate_failure_response [of crashingWorld "Inr wiringOnly"] r2 e2 c2
  have "status (validateFiles crashingWorld (Inr wiringOnly)) = StatusInternalServerError \<and>
        Some (Error (body (validateFiles crashingWorld (Inr wiringOnly)))) =
          err (validateCmd crashingWorld)"
    by simp
  moreover
  from validate_failure_response [of rejectingWorld "Inr wiringOnly"] r3 e1
  have "status (validateFiles_alt rejectingWorld (Inr wiringOnly)) = StatusBadRequest \<and>
        Message (body (validateFiles_alt rejectingWorld (Inr wiringOnly))) =
          combined (validateCmd rejectingWorld)"
    by blast
  ultimately show ?thesis using e2 x1 o1 by simp
qed

text \<open>
  C2 as the claim words it fails on the second handler: a failed run without any marker in
  its output is answered with status 400, the status of a rejected validation, not with a
  system error.
\<close>

theorem validate_failure_alt_counterexample:
  "ranValidate (trace (validateFiles_alt crashingWorld (Inr wiringOnly))) \<and>
   err (validateCmd crashingWorld) \<noteq> None \<and>
   \<not> Contains (combined (validateCmd crashingWorld)) ''ERR'' \<and>
   status (validateFiles_alt crashingWorld (Inr wiringOnly)) = StatusBadRequest \<and>
   status (validateFiles_alt crashingWorld (Inr wiringOnly)) \<noteq> StatusInternalServerError \<and>
   status (validateFiles_alt rejectingWorld (Inr wiringOnly)) = StatusBadRequest"
  by code_simp

text \<open>
  C3. When the form has no file under \<^verbatim>\<open>wiring\<close>, both handlers answer 400 with
  \<open>Success\<close> false and the message \<^verbatim>\<open>"Missing required wiring file"\<close>, and they
  have performed no operation at all: no temporary directory, no command.
\<close>

theorem missing_wiring_rejected:
  assumes "files form ''wiring'' = []"
  shows "status (validateFiles w (Inr form)) = StatusBadRequest \<and>
         \<not> Success (body (validateFiles w (Inr form))) \<and>
         Message (body (validateFiles w (Inr form))) = ''Missing required wiring file'' \<and>
         Error (body (validateFiles w (Inr form))) = ''wiring file is required'' \<and>
         trace (validateFiles w (Inr form)) = [] \<and>
         status (validateFiles_alt w (Inr form)) = StatusBadRequest \<and>
         \<not> Success (body (validateFiles_alt w (Inr form))) \<and>
         Message (body (validateFiles_alt w (Inr form))) = ''Missing required wiring file'' \<and>
         Error (body (validateFiles_alt w (Inr form))) = ''wiring file is required'' \<and>
         trace (validateFiles_alt w (Inr form)) = []"
  by (simp add: missing_wiring [OF assms] respond_def)

theorem missing_wiring_rejected_witness:
  "files emptyForm ''wiring'' = [] \<and>
   status (validateFiles calmWorld (Inr emptyForm)) = StatusBadRequest \<and>
   \<not> Success (body (validateFiles calmWorld (Inr emptyForm))) \<and>
   trace (validateFiles calmWorld (Inr emptyForm)) = [] \<and>
   status (validateFiles_alt calmWorld (Inr emptyForm)) = StatusBadRequest \<and>
   \<not> Success (body (validateFiles_alt calmWorld (Inr emptyForm))) \<and>
   trace (validateFiles_alt calmWorld (Inr emptyForm)) = []"
proof -
  have absent: "files emptyForm ''wiring'' = []"
    by (simp add: files_def emptyForm_def)
  from missing_wiring_rejected [OF absent, of calmWorld] absent show ?thesis by simp
qed

text \<open>
  C4, as the code has it. For a request with a wiring file, a response that reports the
  outcome of an \<^verbatim>\<open>hhfab\<close> command (the failure of \<^verbatim>\<open>hhfab init\<close>, or any
  answer after \<^verbatim>\<open>hhfab validate\<close>) carries the tag \<^verbatim>\<open>uc1\<close> exactly when the
  form has no fab file and \<^verbatim>\<open>uc2\<close> exactly when it has one. The other responses,
  those for a failed file-system operation, leave the tag empty.
\<close>

theorem use_case_tag:
  assumes "files form ''wiring'' \<noteq> []"
  shows "(reportsCommand (trace (validateFiles w (Inr form))) \<longrightarrow>
            (UseCase (body (validateFiles w (Inr form))) = ''uc1'' \<longleftrightarrow> files form ''fab'' = []) \<and>
            (UseCase (body (validateFiles w (Inr form))) = ''uc2'' \<longleftrightarrow> files form ''fab'' \<noteq> [])) \<and>
         (\<not> reportsCommand (trace (validateFiles w (Inr form))) \<longrightarrow>
            UseCase (body (validateFiles w (Inr form))) = []) \<and>
         (reportsCommand (trace (validateFiles_alt w (Inr form))) \<longrightarrow>
            (UseCase (body (validateFiles_alt w (Inr form))) = ''uc1'' \<longleftrightarrow> files form ''fab'' = []) \<and>
            (UseCase (body (validateFiles_alt w (Inr form))) = ''uc2'' \<longleftrightarrow> files form ''fab'' \<noteq> [])) \<and>
         (\<not> reportsCommand (trace (validateFiles_alt w (Inr form))) \<longrightarrow>
            UseCase (body (validateFiles_alt w (Inr form))) = [])"
  unfolding main_tag [OF assms] alt_tag [OF assms] by simp

theorem use_case_tag_witness:
  "files wiringOnly ''wiring'' \<noteq> [] \<and> files wiringOnly ''fab'' = [] \<and>
   reportsCommand (trace (validateFiles calmWorld (Inr wiringOnly))) \<and>
   UseCase (body (validateFiles calmWorld (Inr wiringOnly))) = ''uc1'' \<and>
   files bothFiles ''wiring'' \<noteq> [] \<and> files bothFiles ''fab'' \<noteq> [] \<and>
   reportsCommand (trace (validateFiles_alt rejectingWorld (Inr bothFiles))) \<and>
   UseCase (body (validateFiles_alt rejectingWorld (Inr bothFiles))) = ''uc2'' \<and>
   \<not> reportsCommand (trace (validateFiles noTempWorld (Inr bothFiles))) \<and>
   UseCase (body (validateFiles noTempWorld (Inr bothFiles))) = []"
proof -
  have w1: "files wiringOnly ''wiring'' \<noteq> []" and f1: "files wiringOnly ''fab'' = []"
    by code_simp+
  have w2: "files bothFiles ''wiring'' \<noteq> []" and f2: "files bothFiles ''fab'' \<noteq> []"
    by code_simp+
  have r1: "reportsCommand (trace (validateFiles calmWorld (Inr wiringOnly)))"
    by code_simp
  have r2: "reportsCommand (trace (validateFiles_alt rejectingWorld (Inr bothFiles)))"
    by code_simp
  have r3: "\<not> reportsCommand (trace (validateFiles noTempWorld (Inr bothFiles)))"
    by code_simp
  from use_case_tag [OF w1, of calmWorld] r1 f1
  have "UseCase (body (validateFiles calmWorld (Inr wiringOnly))) = ''uc1''"
    by blast
  moreover
  from use_case_tag [OF w2, of rejectingWorld] r2 f2
  have "UseCase (body (validateFiles_alt rejectingWorld (Inr bothFiles))) = ''uc2''"
    by blast
  moreover
  from use_case_tag [OF w2, of noTempWorld] r3
  have "UseCase (body (validateFiles noTempWorld (Inr bothFiles))) = []"
    by blast
  ultimately show ?thesis using w1 f1 w2 f2 r1 r2 r3 by simp
qed

text \<open>
  C4 as the claim words it fails: a request with a wiring file and no fab file whose
  temporary directory cannot be made is answered with an empty tag, not \<^verbatim>\<open>uc1\<close>.
\<close>

theorem use_case_tag_counterexample:
  "files wiringOnly ''wiring'' \<noteq> [] \<and> files wiringOnly ''fab'' = [] \<and>
   UseCase (body (validateFiles noTempWorld (Inr wiringOnly))) \<noteq> ''uc1''"
  by code_simp

text \<open>
  C7. The handlers set no limit on the time they wait for \<^verbatim>\<open>hhfab validate\<close>:
  \<^verbatim>\<open>CombinedOutput\<close> returns when the command has exited, and the constant
  \<open>TimeoutSec\<close> is used nowhere. With a command that runs 31 seconds, the handler of
  \<^verbatim>\<open>server/main.go\<close> waits those 31 seconds, more than \<open>TimeoutSec\<close>, and
  then answers 200.
\<close>

theorem validate_wait_exceeds_timeout:
  "status (validateFiles slowWorld (Inr wiringOnly)) = StatusOK \<and>
   list_ex (\<lambda>e. isValidate e \<and> waited e = 31 \<and> TimeoutSec < waited e)
     (trace (validateFiles slowWorld (Inr wiringOnly)))"
  by code_simp

text \<open>
  C8, as the code has it. For a request with a wiring file, when the temporary directory
  cannot be made or an uploaded file cannot be written, both handlers answer 500 with
  \<open>Success\<close> false. The handler of \<^verbatim>\<open>server/main.go\<close> has run no command by
  then. The second handler has not run \<^verbatim>\<open>hhfab validate\<close>, and has run no command
  when it is the temporary directory that failed; it writes the uploads only after
  \<^verbatim>\<open>hhfab init\<close>, so a failed write comes after that command.
\<close>

theorem staging_failure_aborts:
  assumes "files form ''wiring'' \<noteq> []"
    and "mkdirTemp w \<noteq> None \<or> saveWiring w \<noteq> None \<or>
         (files form ''fab'' \<noteq> [] \<and> saveFab w \<noteq> None)"
  shows "status (validateFiles w (Inr form)) = StatusInternalServerError \<and>
         \<not> Success (body (validateFiles w (Inr form))) \<and>
         \<not> ranCommand (trace (validateFiles w (Inr form))) \<and>
         status (validateFiles_alt w (Inr form)) = StatusInternalServerError \<and>
         \<not> Success (body (validateFiles_alt w (Inr form))) \<and>
         \<not> ranValidate (trace (validateFiles_alt w (Inr form))) \<and>
         (mkdirTemp w \<noteq> None \<longrightarrow> \<not> ranCommand (trace (validateFiles_alt w (Inr form))))"
  using main_staging [OF assms] alt_staging [OF assms] by blast

theorem staging_failure_aborts_witness:
  "files bothFiles ''wiring'' \<noteq> [] \<and> files bothFiles ''fab'' \<noteq> [] \<and>
   saveFab noFabWriteWorld \<noteq> None \<and>
   status (validateFiles noFabWriteWorld (Inr bothFiles)) = StatusInternalServerError \<and>
   \<not> ranCommand (trace (validateFiles noFabWriteWorld (Inr bothFiles))) \<and>
   \<not> ranValidate (trace (validateFiles_alt noFabWriteWorld (Inr bothFiles))) \<and>
   mkdirTemp noTempWorld \<noteq> None \<and>
   status (validateFiles_alt noTempWorld (Inr bothFiles)) = StatusInternalServerError \<and>
   \<not> ranCommand (trace (validateFiles_alt noTempWorld (Inr bothFiles)))"
proof -
  have wiring: "files bothFiles ''wiring'' \<noteq> []" and fab: "files bothFiles ''fab'' \<noteq> []"
    by code_simp+
  have unwritten: "saveFab noFabWriteWorld \<noteq> None"
    by code_simp
  have temp: "mkdirTemp noTempWorld \<noteq> None"
    by code_simp
  have h1: "mkdirTemp noFabWriteWorld \<noteq> None \<or> saveWiring noFabWriteWorld \<noteq> None \<or>
            (files bothFiles ''fab'' \<noteq> [] \<and> saveFab noFabWriteWorld \<noteq> None)"
    using fab unwritten by simp
  have h2: "mkdirTemp noTempWorld \<noteq> None \<or> saveWiring noTempWorld \<noteq> None \<or>
            (files bothFiles ''fab'' \<noteq> [] \<and> saveFab noTempWorld \<noteq> None)"
    using temp by simp
  from staging_failure_aborts [OF wiring h1] staging_failure_aborts [OF wiring h2]
  show ?thesis using wiring fab unwritten temp by simp
qed

text \<open>
  C8 as the claim words it fails on the second handler: when the wiring file cannot be
  written, the request is answered 500, and \<^verbatim>\<open>hhfab init\<close> has already run.
\<close>

theorem staging_failure_alt_counterexample:
  "files wiringOnly ''wiring'' \<noteq> [] \<and> saveWiring noWiringWriteWorld \<noteq> None \<and>
   status (validateFiles_alt noWiringWriteWorld (Inr wiringOnly)) = StatusInternalServerError \<and>
   ranCommand (trace (validateFiles_alt noWiringWriteWorld (Inr wiringOnly)))"
  by code_simp

text \<open>
  C9, as the code has it. In both handlers a response with \<open>Success\<close> true has no
  \<^verbatim>\<open>error\<close> key. In the handler of \<^verbatim>\<open>server/main.go\<close> a response with
  \<open>Success\<close> false has the key, provided the errors it copies have a text and the summary
  extracted from the output is not empty. In the second handler the response to a failed
  validation has \<open>Success\<close> false and no \<^verbatim>\<open>error\<close> key.
\<close>

theorem error_field_presence:
  "(Success (body (validateFiles w req)) \<longrightarrow>
      ''error'' \<notin> set (json_keys (body (validateFiles w req)))) \<and>
   (Success (body (validateFiles_alt w req)) \<longrightarrow>
      ''error'' \<notin> set (json_keys (body (validateFiles_alt w req)))) \<and>
   (\<not> Success (body (validateFiles w req)) \<and> errorTextsNonEmpty w req \<and>
    extractErrorMessage (combined (validateCmd w)) \<noteq> [] \<longrightarrow>
      ''error'' \<in> set (json_keys (body (validateFiles w req)))) \<and>
   (ranValidate (trace (validateFiles_alt w req)) \<and> err (validateCmd w) \<noteq> None \<longrightarrow>
      \<not> Success (body (validateFiles_alt w req)) \<and>
      ''error'' \<notin> set (json_keys (body (validateFiles_alt w req))))"
  using main_success_no_error [of w req] alt_success_no_error [of w req]
    main_failure_has_error [of w req] alt_failure [of w req]
  unfolding error_key_iff by blast

theorem error_field_presence_witness:
  "Success (body (validateFiles calmWorld (Inr wiringOnly))) \<and>
   ''error'' \<notin> set (json_keys (body (validateFiles calmWorld (Inr wiringOnly)))) \<and>
   Success (body (validateFiles_alt calmWorld (Inr bothFiles))) \<and>
   ''error'' \<notin> set (json_keys (body (validateFiles_alt calmWorld (Inr bothFiles)))) \<and>
   \<not> Success (body (validateFiles rejectingWorld (Inr wiringOnly))) \<and>
   ''error'' \<in> set (json_keys (body (validateFiles rejectingWorld (Inr wiringOnly)))) \<and>
   \<not> Success (body (validateFiles_alt rejectingWorld (Inr wiringOnly))) \<and>
   ''error'' \<notin> set (json_keys (body (validateFiles_alt rejectingWorld (Inr wiringOnly))))"
proof -
  have s1: "Success (body (validateFiles calmWorld (Inr wiringOnly)))"
    by code_simp
  have s2: "Success (body (validateFiles_alt calmWorld (Inr bothFiles)))"
    by code_simp
  have f3: "\<not> Success (body (validateFiles rejectingWorld (Inr wiringOnly)))"
    by code_simp
  have t3: "errorTextsNonEmpty rejectingWorld (Inr wiringOnly)"
    by code_simp
  have x3: "extractErrorMessage (combined (validateCmd rejectingWorld)) \<noteq> []"
    by code_simp
  have r4: "ranValidate (trace (validateFiles_alt rejectingWorld (Inr wiringOnly)))"
    by code_simp
  have e4: "err (validateCmd rejectingWorld) \<noteq> None"
    by code_simp
  from error_field_presence [of calmWorld "Inr wiringOnly"] s1
  have "''error'' \<notin> set (json_keys (body (validateFiles calmWorld (Inr wiringOnly))))"
    by blast
  moreover
  from error_field_presence [of calmWorld "Inr bothFiles"] s2
  have "''error'' \<notin> set (json_keys (body (validateFiles_alt calmWorld (Inr bothFiles))))"
    by blast
  moreover
  from error_field_presence [of rejectingWorld "Inr wiringOnly"] f3 t3 x3
  have "''error'' \<in> set (json_keys (body (validateFiles rejectingWorld (Inr wiringOnly))))"
    by blast
  moreover
  from error_field_presence [of rejectingWorld "Inr wiringOnly"] r4 e4
  have "\<not> Success (body (validateFiles_alt rejectingWorld (Inr wiringOnly))) \<and>
        ''error'' \<notin> set (json_keys (body (validateFiles_alt rejectingWorld (Inr wiringOnly))))"
    by blast
  ultimately show ?thesis using s1 s2 f3 by simp
qed

text \<open>
  C9 as the claim words it fails on the second handler: the response to a rejected
  validation has \<open>Success\<close> false and no \<^verbatim>\<open>error\<close> key.
\<close>

theorem error_field_alt_counterexample:
  "\<not> Success (body (validateFiles_alt rejectingWorld (Inr wiringOnly))) \<and>
   ''error'' \<notin> set (json_keys (body (validateFiles_alt rejectingWorld (Inr wiringOnly))))"
  by code_simp

end
